theory Spec2Isabelle
  imports Complex_Main
begin

section \<open>The modelling library as the script uses it\<close>

text \<open>
  The script \<^verbatim>\<open>lpsolve__5_5__ratios__fractional_01_programming__example.py\<close> is a
  straight line of calls into the PuLP modelling library: it creates decision variables,
  combines them into linear expressions with the overloaded operators \<^verbatim>\<open>*\<close>, \<^verbatim>\<open>+\<close>,
  \<^verbatim>\<open>-\<close>, turns expressions into constraints with \<^verbatim>\<open><=\<close>, \<^verbatim>\<open>>=\<close>, \<^verbatim>\<open>==\<close>, adds
  objective and constraints to a problem with \<^verbatim>\<open>+=\<close>, calls \<^verbatim>\<open>solve()\<close>, and reads the
  solved values back from the variable objects.

  Python floats are modelled by the reals: every coefficient is the decimal the source
  writes, and arithmetic is exact. The solver is outside the script; it is a parameter of
  the embedding.
\<close>

subsection \<open>Decision variables\<close>

text \<open>The categories named in the comment of line 44.\<close>

datatype category = Continuous | Integer | Binary

text \<open>
  A variable object: the keyword arguments of \<^verbatim>\<open>pulp.LpVariable(name, lowBound=None,
  upBound=None, cat=...)\<close>, and the attribute \<^verbatim>\<open>varValue\<close>, which is \<^verbatim>\<open>None\<close> until a
  solver stores a number there.
\<close>

record LpVariable =
  name :: string
  lowBound :: "real option"
  upBound :: "real option"
  cat :: category
  varValue :: "real option"

text \<open>Variable objects live in a store; the script holds references to them.\<close>

type_synonym ref = nat

subsection \<open>Linear expressions and constraints\<close>

text \<open>
  A linear expression is a list of terms (variable, coefficient) and a constant. It is
  polymorphic in what stands for a variable: a reference while the script runs, the
  variable as declared in what the solver is handed.
\<close>

type_synonym 'v LpAffineExpression = "('v \<times> real) list \<times> real"

text \<open>A variable used as an expression: \<^verbatim>\<open>y2\<close>.\<close>

definition var :: "'v \<Rightarrow> 'v LpAffineExpression" where
  "var v = ([(v, 1)], 0)"

text \<open>A number used as an expression: the \<^verbatim>\<open>0\<close> of \<^verbatim>\<open>... <= 0\<close>.\<close>

definition num :: "real \<Rightarrow> 'v LpAffineExpression" where
  "num c = ([], c)"

text \<open>\<^verbatim>\<open>c * e\<close>\<close>

definition mul :: "real \<Rightarrow> 'v LpAffineExpression \<Rightarrow> 'v LpAffineExpression" where
  "mul c e = (map (\<lambda>(v, a). (v, c * a)) (fst e), c * snd e)"

text \<open>\<^verbatim>\<open>e1 + e2\<close>\<close>

definition add :: "'v LpAffineExpression \<Rightarrow> 'v LpAffineExpression \<Rightarrow> 'v LpAffineExpression" where
  "add e1 e2 = (fst e1 @ fst e2, snd e1 + snd e2)"

text \<open>\<^verbatim>\<open>e1 - e2\<close>\<close>

definition sub :: "'v LpAffineExpression \<Rightarrow> 'v LpAffineExpression \<Rightarrow> 'v LpAffineExpression" where
  "sub e1 e2 = add e1 (mul (- 1) e2)"

text \<open>
  A constraint compares two expressions: \<^verbatim>\<open>e1 <= e2\<close>, \<^verbatim>\<open>e1 >= e2\<close>, \<^verbatim>\<open>e1 == e2\<close>.
\<close>

datatype 'v LpConstraint =
    LE "'v LpAffineExpression" "'v LpAffineExpression"
  | GE "'v LpAffineExpression" "'v LpAffineExpression"
  | EQ "'v LpAffineExpression" "'v LpAffineExpression"

subsection \<open>Problems\<close>

datatype LpSense = LpMinimize | LpMaximize

text \<open>The five status codes a solve can leave in \<^verbatim>\<open>model.status\<close>.\<close>

datatype status =
    LpStatusNotSolved | LpStatusOptimal | LpStatusInfeasible | LpStatusUnbounded
  | LpStatusUndefined

text \<open>The dictionary \<^verbatim>\<open>pulp.LpStatus\<close>: a name for each status code.\<close>

fun LpStatus :: "status \<Rightarrow> string" where
  "LpStatus LpStatusNotSolved = ''Not Solved''"
| "LpStatus LpStatusOptimal = ''Optimal''"
| "LpStatus LpStatusInfeasible = ''Infeasible''"
| "LpStatus LpStatusUnbounded = ''Unbounded''"
| "LpStatus LpStatusUndefined = ''Undefined''"

record 'v LpProblem =
  problem_name :: string
  sense :: LpSense
  objective :: "'v LpAffineExpression option"
  constraints :: "'v LpConstraint list"
  status :: status
  solutionTime :: real

text \<open>\<^verbatim>\<open>pulp.LpProblem(name, sense)\<close>: no objective, no constraint, not solved.\<close>

definition new_LpProblem :: "string \<Rightarrow> LpSense \<Rightarrow> 'v LpProblem" where
  "new_LpProblem n sn =
     \<lparr>problem_name = n, sense = sn, objective = None, constraints = [],
      status = LpStatusNotSolved, solutionTime = 0\<rparr>"

text \<open>\<^verbatim>\<open>model += e\<close> with an expression \<open>e\<close> sets the objective.\<close>

definition iadd_objective :: "'v LpProblem \<Rightarrow> 'v LpAffineExpression \<Rightarrow> 'v LpProblem" where
  "iadd_objective m e = m\<lparr>objective := Some e\<rparr>"

text \<open>\<^verbatim>\<open>model += c\<close> with a constraint \<open>c\<close> appends it.\<close>

definition iadd_constraint :: "'v LpProblem \<Rightarrow> 'v LpConstraint \<Rightarrow> 'v LpProblem" where
  "iadd_constraint m c = m\<lparr>constraints := constraints m @ [c]\<rparr>"

text \<open>The variables a problem mentions, each once.\<close>

definition expr_variables :: "'v LpAffineExpression \<Rightarrow> 'v list" where
  "expr_variables e = map fst (fst e)"

fun constraint_variables :: "'v LpConstraint \<Rightarrow> 'v list" where
  "constraint_variables (LE l r) = expr_variables l @ expr_variables r"
| "constraint_variables (GE l r) = expr_variables l @ expr_variables r"
| "constraint_variables (EQ l r) = expr_variables l @ expr_variables r"

definition variables :: "'v LpProblem \<Rightarrow> 'v list" where
  "variables m =
     remdups ((case objective m of None \<Rightarrow> [] | Some e \<Rightarrow> expr_variables e)
              @ concat (map constraint_variables (constraints m)))"

text \<open>
  Renaming the variables of an expression, a constraint, a problem. It is used to replace
  references by the objects they point to.
\<close>

definition map_expr :: "('v \<Rightarrow> 'w) \<Rightarrow> 'v LpAffineExpression \<Rightarrow> 'w LpAffineExpression" where
  "map_expr f e = (map (\<lambda>(v, a). (f v, a)) (fst e), snd e)"

fun map_constraint :: "('v \<Rightarrow> 'w) \<Rightarrow> 'v LpConstraint \<Rightarrow> 'w LpConstraint" where
  "map_constraint f (LE l r) = LE (map_expr f l) (map_expr f r)"
| "map_constraint f (GE l r) = GE (map_expr f l) (map_expr f r)"
| "map_constraint f (EQ l r) = EQ (map_expr f l) (map_expr f r)"

definition map_problem :: "('v \<Rightarrow> 'w) \<Rightarrow> 'v LpProblem \<Rightarrow> 'w LpProblem" where
  "map_problem f m =
     \<lparr>problem_name = problem_name m, sense = sense m,
      objective = map_option (map_expr f) (objective m),
      constraints = map (map_constraint f) (constraints m),
      status = status m, solutionTime = solutionTime m\<rparr>"

subsection \<open>The state of a run\<close>

text \<open>
  What a run of the script can change: the store of variable objects, the lines written
  to standard output, and the problems handed to the solver so far. A printed line is the
  literal text of its f-string and the value formatted after it (\<^verbatim>\<open>None\<close> prints as
  such).
\<close>

type_synonym line = "string \<times> real option"

record state =
  heap :: "LpVariable list"
  stdout :: "line list"
  solver_calls :: "LpVariable LpProblem list"

definition initial :: state where
  "initial = \<lparr>heap = [], stdout = [], solver_calls = []\<rparr>"

text \<open>The errors a run can end with, none of which the script catches.\<close>

datatype error = PulpSolverError | TypeError | ZeroDivisionError

datatype outcome = Done state | Raised error state

text \<open>
  \<^verbatim>\<open>pulp.LpVariable(name, lowBound=..., cat=...)\<close> makes a new object, with no value,
  and returns the reference to it.
\<close>

definition new_LpVariable ::
  "string \<Rightarrow> real option \<Rightarrow> real option \<Rightarrow> category \<Rightarrow> state \<Rightarrow> ref \<times> state" where
  "new_LpVariable n lb ub c s =
     (length (heap s),
      s\<lparr>heap := heap s @ [\<lparr>name = n, lowBound = lb, upBound = ub, cat = c, varValue = None\<rparr>]\<rparr>)"

text \<open>\<^verbatim>\<open>print(...)\<close>\<close>

definition print :: "line \<Rightarrow> state \<Rightarrow> state" where
  "print l s = s\<lparr>stdout := stdout s @ [l]\<rparr>"

text \<open>
  \<^verbatim>\<open>a / b\<close> on two \<^verbatim>\<open>varValue\<close>s: a \<^verbatim>\<open>TypeError\<close> when one of them is \<^verbatim>\<open>None\<close>,
  a \<^verbatim>\<open>ZeroDivisionError\<close> when the divisor is zero.
\<close>

definition truediv :: "real option \<Rightarrow> real option \<Rightarrow> error + real" where
  "truediv a b =
     (case a of
        None \<Rightarrow> Inl TypeError
      | Some x \<Rightarrow>
          (case b of
             None \<Rightarrow> Inl TypeError
           | Some y \<Rightarrow> if y = 0 then Inl ZeroDivisionError else Inr (x / y)))"

text \<open>
  \<^verbatim>\<open>pulp.value(e)\<close>: the expression at the variables' values, \<^verbatim>\<open>None\<close> as soon as a
  variable has none.
\<close>

fun value_terms :: "LpVariable list \<Rightarrow> (ref \<times> real) list \<Rightarrow> real \<Rightarrow> real option" where
  "value_terms h [] acc = Some acc"
| "value_terms h ((v, x) # ts) acc =
     (case varValue (h ! v) of
        None \<Rightarrow> None
      | Some y \<Rightarrow> value_terms h ts (acc + y * x))"

definition "value" :: "LpVariable list \<Rightarrow> ref LpAffineExpression option \<Rightarrow> real option" where
  "value h x = (case x of None \<Rightarrow> None | Some e \<Rightarrow> value_terms h (fst e) (snd e))"

subsection \<open>The solver\<close>

text \<open>
  The solver is handed the problem with each reference replaced by the declared
  attributes of the variable it points to (name, bounds, category; no value). It either
  fails, or answers with a status, a value or \<^verbatim>\<open>None\<close> for each variable name, and
  the time it took.
\<close>

definition declared :: "LpVariable list \<Rightarrow> ref \<Rightarrow> LpVariable" where
  "declared h r = (h ! r)\<lparr>varValue := None\<rparr>"

definition handed :: "LpVariable list \<Rightarrow> ref LpProblem \<Rightarrow> LpVariable LpProblem" where
  "handed h m = map_problem (declared h) m"

record solution =
  sol_status :: status
  sol_values :: "string \<Rightarrow> real option"
  sol_time :: real

type_synonym solver = "LpVariable LpProblem \<Rightarrow> solution option"

text \<open>The solver's values are stored in the variable objects of the problem.\<close>

definition store_values :: "ref list \<Rightarrow> (string \<Rightarrow> real option) \<Rightarrow> LpVariable list \<Rightarrow> LpVariable list" where
  "store_values rs vals h = fold (\<lambda>r h'. h'[r := (h' ! r)\<lparr>varValue := vals (name (h' ! r))\<rparr>]) rs h"

text \<open>
  \<^verbatim>\<open>model.solve()\<close>: one call of the solver. A failure of the solver is an error of the
  run; otherwise status and time are stored in the problem and the values in its
  variables.
\<close>

definition solve :: "solver \<Rightarrow> ref LpProblem \<Rightarrow> state \<Rightarrow> (error + ref LpProblem) \<times> state" where
  "solve solver m s =
     (let lp = handed (heap s) m;
          s = s\<lparr>solver_calls := solver_calls s @ [lp]\<rparr>
      in case solver lp of
           None \<Rightarrow> (Inl PulpSolverError, s)
         | Some sol \<Rightarrow>
             (Inr (m\<lparr>status := sol_status sol, solutionTime := sol_time sol\<rparr>),
              s\<lparr>heap := store_values (variables m) (sol_values sol) (heap s)\<rparr>))"

section \<open>The script\<close>

text \<open>
  Lines 54 to 60 of Part 1 and lines 112 to 118 of Part 2 are the same text: solve, look
  the status up and drop it, print the two ratios, the objective value and the solution
  time. The f-string of a \<^verbatim>\<open>print\<close> is evaluated before anything is printed, so a
  failing division prints nothing and ends the run.
\<close>

definition solve_and_print :: "solver \<Rightarrow> ref LpProblem \<Rightarrow> ref \<Rightarrow> ref \<Rightarrow> ref \<Rightarrow> state \<Rightarrow> outcome" where
  "solve_and_print solver model0 y0 y1 y2 s0 =
     (case solve solver model0 s0 of
        (Inl e, s) \<Rightarrow> Raised e s
      | (Inr model, s) \<Rightarrow>
          (let _ = LpStatus (status model) in
           case truediv (varValue (heap s ! y1)) (varValue (heap s ! y0)) of
             Inl e \<Rightarrow> Raised e s
           | Inr x1 \<Rightarrow>
               (let s = print (''x1 value: '', Some x1) s in
                case truediv (varValue (heap s ! y2)) (varValue (heap s ! y0)) of
                  Inl e \<Rightarrow> Raised e s
                | Inr x2 \<Rightarrow>
                    (let s = print (''x2 value: '', Some x2) s;
                         s = print (''maximum value: '', value (heap s) (objective model)) s;
                         s = print (''solution time: '', Some (solutionTime model)) s
                     in Done s))))"

subsection \<open>Part 1\<close>

text \<open>Lines 42 to 52: the problem with continuous variables.\<close>

definition part1_model :: "state \<Rightarrow> ref LpProblem \<times> ref \<times> ref \<times> ref \<times> state" where
  "part1_model s0 =
     (let model = new_LpProblem ''lp solve fractional 0-1 programming example'' LpMaximize;
          (y0, s) = new_LpVariable ''y0'' (Some 0) None Continuous s0;
          (y1, s) = new_LpVariable ''y1'' (Some 0) None Continuous s;
          (y2, s) = new_LpVariable ''y2'' (Some 0) None Continuous s;
          model = iadd_objective model (add (mul 1.8 (var y1)) (mul 1.7 (var y2)));
          model = iadd_constraint model
            (LE (add (add (mul (- 6) (var y0)) (mul 1.5 (var y1))) (var y2)) (num 0));
          model = iadd_constraint model
            (LE (add (add (mul (- 20) (var y0)) (mul 3.0 (var y1))) (mul 4 (var y2))) (num 0));
          model = iadd_constraint model
            (EQ (add (add (mul 10 (var y0)) (mul 4.0 (var y1))) (mul 4.1 (var y2))) (num 1))
      in (model, y0, y1, y2, s))"

text \<open>Lines 42 to 60.\<close>

definition part1 :: "solver \<Rightarrow> state \<Rightarrow> outcome" where
  "part1 solver s0 =
     (case part1_model s0 of (model, y0, y1, y2, s) \<Rightarrow> solve_and_print solver model y0 y1 y2 s)"

subsection \<open>Part 2\<close>

text \<open>
  Lines 80 to 110: a new problem, new variables \<^verbatim>\<open>y0\<close>, \<^verbatim>\<open>y1\<close>, \<^verbatim>\<open>y2\<close>, and the two
  binary variables \<^verbatim>\<open>z1\<close>, \<^verbatim>\<open>z2\<close>.
\<close>

definition part2_model :: "state \<Rightarrow> ref LpProblem \<times> ref \<times> ref \<times> ref \<times> state" where
  "part2_model s0 =
     (let model = new_LpProblem ''lp solve fractional 0-1 programming example'' LpMaximize;
          (y0, s) = new_LpVariable ''y0'' (Some 0) None Continuous s0;
          (y1, s) = new_LpVariable ''y1'' (Some 0) None Continuous s;
          (y2, s) = new_LpVariable ''y2'' (Some 0) None Continuous s;
          (z1, s) = new_LpVariable ''z1'' None None Binary s;
          (z2, s) = new_LpVariable ''z2'' None None Binary s;
          model = iadd_objective model (add (mul 1.8 (var y1)) (mul 1.7 (var y2)));
          model = iadd_constraint model
            (EQ (add (add (mul 10 (var y0)) (mul 4.0 (var y1))) (mul 4.1 (var y2))) (num 1));
          model = iadd_constraint model
            (LE (add (add (mul (- 6) (var y0)) (mul 1.5 (var y1))) (var y2)) (num 0));
          model = iadd_constraint model
            (LE (add (add (mul (- 20) (var y0)) (mul 3.0 (var y1))) (mul 4 (var y2))) (num 0));
          model = iadd_constraint model (LE (var y1) (mul 0.127 (var z1)));
          model = iadd_constraint model
            (GE (sub (sub (var y1) (var y0)) (mul 0.032 (var z1))) (num (- 0.032)));
          model = iadd_constraint model
            (LE (add (sub (var y1) (var y0)) (mul 0.032 (var z1))) (num 0.032));
          model = iadd_constraint model (LE (var y2) (mul 0.127 (var z2)));
          model = iadd_constraint model
            (GE (sub (sub (var y2) (var y0)) (mul 0.032 (var z2))) (num (- 0.032)));
          model = iadd_constraint model
            (LE (add (sub (var y2) (var y0)) (mul 0.032 (var z2))) (num 0.032))
      in (model, y0, y1, y2, s))"

text \<open>Lines 80 to 118.\<close>

definition part2 :: "solver \<Rightarrow> state \<Rightarrow> outcome" where
  "part2 solver s0 =
     (case part2_model s0 of (model, y0, y1, y2, s) \<Rightarrow> solve_and_print solver model y0 y1 y2 s)"

subsection \<open>The whole script\<close>

text \<open>Part 2 runs when Part 1 has ended without an error.\<close>

definition script :: "solver \<Rightarrow> state \<Rightarrow> outcome" where
  "script solver s0 =
     (case part1 solver s0 of
        Raised e s \<Rightarrow> Raised e s
      | Done s \<Rightarrow> part2 solver s)"

section \<open>What a problem means\<close>

text \<open>
  The solver reads a problem as a mathematical programme over an assignment of a real
  number to each variable name: a variable restricts its value by its category and its
  bounds (a binary variable takes 0 or 1), a constraint compares the values of its two
  sides, and the objective is the value of its expression.
\<close>

type_synonym valuation = "string \<Rightarrow> real"

definition eval :: "valuation \<Rightarrow> LpVariable LpAffineExpression \<Rightarrow> real" where
  "eval x e = sum_list (map (\<lambda>(v, a). a * x (name v)) (fst e)) + snd e"

fun satisfies :: "valuation \<Rightarrow> LpVariable LpConstraint \<Rightarrow> bool" where
  "satisfies x (LE l r) = (eval x l \<le> eval x r)"
| "satisfies x (GE l r) = (eval x l \<ge> eval x r)"
| "satisfies x (EQ l r) = (eval x l = eval x r)"

definition within_bounds :: "LpVariable \<Rightarrow> real \<Rightarrow> bool" where
  "within_bounds v a =
     ((case lowBound v of None \<Rightarrow> True | Some l \<Rightarrow> l \<le> a)
      \<and> (case upBound v of None \<Rightarrow> True | Some u \<Rightarrow> a \<le> u))"

definition in_domain :: "LpVariable \<Rightarrow> real \<Rightarrow> bool" where
  "in_domain v a =
     (case cat v of
        Continuous \<Rightarrow> within_bounds v a
      | Integer \<Rightarrow> a = of_int \<lfloor>a\<rfloor> \<and> within_bounds v a
      | Binary \<Rightarrow> a = 0 \<or> a = 1)"

definition feasible :: "LpVariable LpProblem \<Rightarrow> valuation \<Rightarrow> bool" where
  "feasible lp x =
     (list_all (\<lambda>v. in_domain v (x (name v))) (variables lp)
      \<and> list_all (satisfies x) (constraints lp))"

definition objective_value :: "LpVariable LpProblem \<Rightarrow> valuation \<Rightarrow> real" where
  "objective_value lp x = (case objective lp of None \<Rightarrow> 0 | Some e \<Rightarrow> eval x e)"

definition better_or_equal :: "LpSense \<Rightarrow> real \<Rightarrow> real \<Rightarrow> bool" where
  "better_or_equal sn a b = (case sn of LpMaximize \<Rightarrow> b \<le> a | LpMinimize \<Rightarrow> a \<le> b)"

definition optimal :: "LpVariable LpProblem \<Rightarrow> valuation \<Rightarrow> bool" where
  "optimal lp x =
     (feasible lp x
      \<and> (\<forall>x'. feasible lp x' \<longrightarrow>
             better_or_equal (sense lp) (objective_value lp x) (objective_value lp x')))"

text \<open>
  A solver's answer is accurate to \<open>d\<close> with respect to an assignment when it has a value
  for every variable of the problem and each value differs from the assignment's by at
  most \<open>d\<close>.
\<close>

definition accurate :: "real \<Rightarrow> LpVariable LpProblem \<Rightarrow> solution \<Rightarrow> valuation \<Rightarrow> bool" where
  "accurate d lp sol x =
     list_all (\<lambda>v. case sol_values sol (name v) of None \<Rightarrow> False | Some a \<Rightarrow> \<bar>a - x (name v)\<bar> \<le> d)
       (variables lp)"

section \<open>The two problems the script hands to the solver\<close>

text \<open>How a run ended, and the state it left.\<close>

fun final :: "outcome \<Rightarrow> state" where
  "final (Done s) = s"
| "final (Raised e s) = s"

fun fault :: "outcome \<Rightarrow> error option" where
  "fault (Done s) = None"
| "fault (Raised e s) = Some e"

text \<open>
  The problems as the solver sees them, when the script starts with an empty store. The
  lemmas below show that the same problems are handed over whatever the store holds.
\<close>

definition part1_lp :: "LpVariable LpProblem" where
  "part1_lp = (case part1_model initial of (model, y0, y1, y2, s) \<Rightarrow> handed (heap s) model)"

definition part2_lp :: "LpVariable LpProblem" where
  "part2_lp = (case part2_model initial of (model, y0, y1, y2, s) \<Rightarrow> handed (heap s) model)"

text \<open>What a run started in state \<open>s0\<close> has printed, and the variable objects it has made.\<close>

definition printed :: "state \<Rightarrow> outcome \<Rightarrow> line list" where
  "printed s0 r = drop (length (stdout s0)) (stdout (final r))"

definition created :: "state \<Rightarrow> outcome \<Rightarrow> LpVariable list" where
  "created s0 r = drop (length (heap s0)) (heap (final r))"

subsection \<open>Sample points and solvers\<close>

text \<open>
  Two assignments, shown below to be the optimum of the first problem and the one feasible
  point of the second, and solvers that answer with them or with zeros. They serve as
  concrete inputs.
\<close>

definition part1_point :: valuation where
  "part1_point n = (if n = ''y0'' then 15 / 476 else if n = ''y1'' then 5 / 119 else 15 / 119)"

definition part2_point :: valuation where
  "part2_point n = (if n = ''z1'' \<or> n = ''z2'' then 1 else 10 / 181)"

definition answering :: "status \<Rightarrow> (string \<Rightarrow> real option) \<Rightarrow> real \<Rightarrow> solver" where
  "answering st vals t lp = Some \<lparr>sol_status = st, sol_values = vals, sol_time = t\<rparr>"

definition exact_solver :: solver where
  "exact_solver lp =
     Some \<lparr>sol_status = LpStatusOptimal,
           sol_values = (\<lambda>n. Some (if length (constraints lp) = 3 then part1_point n else part2_point n)),
           sol_time = 1\<rparr>"

text \<open>
  The values the comments of the script record for a run, to nine decimals:
  \<open>y0 = 0.031512605\<close> and \<open>yi \<le> 0.12605042\<close> (lines 102 and 103) for Part 1, with
  \<open>y1 = 0.042016807\<close> from the printed ratio; for Part 2 the common value
  \<open>0.055248619\<close> that the printed objective \<open>0.1933701665\<close> gives. The solver
  \<open>recorded_solver\<close> answers with them.
\<close>

definition recorded_part1 :: valuation where
  "recorded_part1 n = (if n = ''y0'' then 0.031512605 else if n = ''y1'' then 0.042016807 else 0.12605042)"

definition recorded_part2 :: valuation where
  "recorded_part2 n = (if n = ''z1'' \<or> n = ''z2'' then 1 else 0.055248619)"

definition recorded_solver :: solver where
  "recorded_solver lp =
     Some \<lparr>sol_status = LpStatusOptimal,
           sol_values = (\<lambda>n. Some (if length (constraints lp) = 3 then recorded_part1 n else recorded_part2 n)),
           sol_time = 1\<rparr>"

section \<open>Running the script: auxiliary facts\<close>

lemmas build_defs = new_LpVariable_def new_LpProblem_def iadd_objective_def iadd_constraint_def
  add_def mul_def var_def num_def sub_def

lemmas run_defs = solve_and_print_def solve_def variables_def expr_variables_def
     store_values_def print_def value_def nth_append list_update_append

lemmas handed_defs = handed_def map_problem_def map_expr_def declared_def nth_append

lemma part1_model_eq:
  "part1_model s0 =
     (let n = length (heap s0) in
      (\<lparr>problem_name = ''lp solve fractional 0-1 programming example'', sense = LpMaximize,
        objective = Some ([(n + 1, 1.8), (n + 2, 1.7)], 0),
        constraints =
          [LE ([(n, - 6), (n + 1, 1.5), (n + 2, 1)], 0) ([], 0),
           LE ([(n, - 20), (n + 1, 3), (n + 2, 4)], 0) ([], 0),
           EQ ([(n, 10), (n + 1, 4), (n + 2, 4.1)], 0) ([], 1)],
        status = LpStatusNotSolved, solutionTime = 0\<rparr>,
       n, n + 1, n + 2,
       s0\<lparr>heap := heap s0 @
          [\<lparr>name = ''y0'', lowBound = Some 0, upBound = None, cat = Continuous, varValue = None\<rparr>,
           \<lparr>name = ''y1'', lowBound = Some 0, upBound = None, cat = Continuous, varValue = None\<rparr>,
           \<lparr>name = ''y2'', lowBound = Some 0, upBound = None, cat = Continuous, varValue = None\<rparr>]\<rparr>))"
  by (simp add: part1_model_def build_defs Let_def)

lemma part2_model_eq:
  "part2_model s0 =
     (let n = length (heap s0) in
      (\<lparr>problem_name = ''lp solve fractional 0-1 programming example'', sense = LpMaximize,
        objective = Some ([(n + 1, 1.8), (n + 2, 1.7)], 0),
        constraints =
          [EQ ([(n, 10), (n + 1, 4), (n + 2, 4.1)], 0) ([], 1),
           LE ([(n, - 6), (n + 1, 1.5), (n + 2, 1)], 0) ([], 0),
           LE ([(n, - 20), (n + 1, 3), (n + 2, 4)], 0) ([], 0),
           LE ([(n + 1, 1)], 0) ([(n + 3, 0.127)], 0),
           GE ([(n + 1, 1), (n, - 1), (n + 3, - 0.032)], 0) ([], - 0.032),
           LE ([(n + 1, 1), (n, - 1), (n + 3, 0.032)], 0) ([], 0.032),
           LE ([(n + 2, 1)], 0) ([(n + 4, 0.127)], 0),
           GE ([(n + 2, 1), (n, - 1), (n + 4, - 0.032)], 0) ([], - 0.032),
           LE ([(n + 2, 1), (n, - 1), (n + 4, 0.032)], 0) ([], 0.032)],
        status = LpStatusNotSolved, solutionTime = 0\<rparr>,
       n, n + 1, n + 2,
       s0\<lparr>heap := heap s0 @
          [\<lparr>name = ''y0'', lowBound = Some 0, upBound = None, cat = Continuous, varValue = None\<rparr>,
           \<lparr>name = ''y1'', lowBound = Some 0, upBound = None, cat = Continuous, varValue = None\<rparr>,
           \<lparr>name = ''y2'', lowBound = Some 0, upBound = None, cat = Continuous, varValue = None\<rparr>,
           \<lparr>name = ''z1'', lowBound = None, upBound = None, cat = Binary, varValue = None\<rparr>,
           \<lparr>name = ''z2'', lowBound = None, upBound = None, cat = Binary, varValue = None\<rparr>]\<rparr>))"
  by (simp add: part2_model_def build_defs Let_def)

lemma part1_handed:
  "(case part1_model s0 of (model, y0, y1, y2, s) \<Rightarrow> handed (heap s) model) = part1_lp"
  by (simp add: part1_lp_def part1_model_eq Let_def handed_defs initial_def)

lemma part2_handed:
  "(case part2_model s0 of (model, y0, y1, y2, s) \<Rightarrow> handed (heap s) model) = part2_lp"
  by (simp add: part2_lp_def part2_model_eq Let_def handed_defs initial_def)

lemma part1_run:
  "part1 solver s0 =
     (let h = heap s0;
          Y = (\<lambda>n v. \<lparr>name = n, lowBound = Some 0, upBound = None, cat = Continuous, varValue = v\<rparr>);
          calls = solver_calls s0 @ [part1_lp]
      in case solver part1_lp of
           None \<Rightarrow>
             Raised PulpSolverError
               (s0\<lparr>heap := h @ [Y ''y0'' None, Y ''y1'' None, Y ''y2'' None], solver_calls := calls\<rparr>)
         | Some sol \<Rightarrow>
             (let v = sol_values sol;
                  s = s0\<lparr>heap := h @ [Y ''y0'' (v ''y0''), Y ''y1'' (v ''y1''), Y ''y2'' (v ''y2'')],
                         solver_calls := calls\<rparr>
              in case truediv (v ''y1'') (v ''y0'') of
                   Inl e \<Rightarrow> Raised e s
                 | Inr x1 \<Rightarrow>
                     (case truediv (v ''y2'') (v ''y0'') of
                        Inl e \<Rightarrow> Raised e (s\<lparr>stdout := stdout s0 @ [(''x1 value: '', Some x1)]\<rparr>)
                      | Inr x2 \<Rightarrow>
                          Done (s\<lparr>stdout := stdout s0 @
                            [(''x1 value: '', Some x1), (''x2 value: '', Some x2),
                             (''maximum value: '',
                                 (case v ''y1'' of None \<Rightarrow> None | Some a \<Rightarrow>
                                  (case v ''y2'' of None \<Rightarrow> None | Some b \<Rightarrow> Some (0 + a * 1.8 + b * 1.7)))),
                             (''solution time: '', Some (sol_time sol))]\<rparr>))))"
  using part1_handed [of s0]
  by (simp add: part1_def part1_model_eq Let_def run_defs split: option.split sum.split)

lemma part2_run:
  "part2 solver s0 =
     (let h = heap s0;
          Y = (\<lambda>n v. \<lparr>name = n, lowBound = Some 0, upBound = None, cat = Continuous, varValue = v\<rparr>);
          Z = (\<lambda>n v. \<lparr>name = n, lowBound = None, upBound = None, cat = Binary, varValue = v\<rparr>);
          calls = solver_calls s0 @ [part2_lp]
      in case solver part2_lp of
           None \<Rightarrow>
             Raised PulpSolverError
               (s0\<lparr>heap := h @ [Y ''y0'' None, Y ''y1'' None, Y ''y2'' None, Z ''z1'' None, Z ''z2'' None],
                   solver_calls := calls\<rparr>)
         | Some sol \<Rightarrow>
             (let v = sol_values sol;
                  s = s0\<lparr>heap := h @ [Y ''y0'' (v ''y0''), Y ''y1'' (v ''y1''), Y ''y2'' (v ''y2''),
                                       Z ''z1'' (v ''z1''), Z ''z2'' (v ''z2'')],
                         solver_calls := calls\<rparr>
              in case truediv (v ''y1'') (v ''y0'') of
                   Inl e \<Rightarrow> Raised e s
                 | Inr x1 \<Rightarrow>
                     (case truediv (v ''y2'') (v ''y0'') of
                        Inl e \<Rightarrow> Raised e (s\<lparr>stdout := stdout s0 @ [(''x1 value: '', Some x1)]\<rparr>)
                      | Inr x2 \<Rightarrow>
                          Done (s\<lparr>stdout := stdout s0 @
                            [(''x1 value: '', Some x1), (''x2 value: '', Some x2),
                             (''maximum value: '',
                                 (case v ''y1'' of None \<Rightarrow> None | Some a \<Rightarrow>
                                  (case v ''y2'' of None \<Rightarrow> None | Some b \<Rightarrow> Some (0 + a * 1.8 + b * 1.7)))),
                             (''solution time: '', Some (sol_time sol))]\<rparr>))))"
  using part2_handed [of s0]
  by (simp add: part2_def part2_model_eq Let_def run_defs split: option.split sum.split)

lemmas sem_defs = feasible_def variables_def expr_variables_def in_domain_def within_bounds_def eval_def
  objective_value_def

lemma part1_lp_variables:
  "list_all P (variables part1_lp) \<longleftrightarrow>
     P \<lparr>name = ''y0'', lowBound = Some 0, upBound = None, cat = Continuous, varValue = None\<rparr>
     \<and> P \<lparr>name = ''y1'', lowBound = Some 0, upBound = None, cat = Continuous, varValue = None\<rparr>
     \<and> P \<lparr>name = ''y2'', lowBound = Some 0, upBound = None, cat = Continuous, varValue = None\<rparr>"
  by (simp add: part1_lp_def part1_model_eq Let_def handed_defs initial_def variables_def expr_variables_def)

lemma part2_lp_variables:
  "list_all P (variables part2_lp) \<longleftrightarrow>
     P \<lparr>name = ''y0'', lowBound = Some 0, upBound = None, cat = Continuous, varValue = None\<rparr>
     \<and> P \<lparr>name = ''y1'', lowBound = Some 0, upBound = None, cat = Continuous, varValue = None\<rparr>
     \<and> P \<lparr>name = ''y2'', lowBound = Some 0, upBound = None, cat = Continuous, varValue = None\<rparr>
     \<and> P \<lparr>name = ''z1'', lowBound = None, upBound = None, cat = Binary, varValue = None\<rparr>
     \<and> P \<lparr>name = ''z2'', lowBound = None, upBound = None, cat = Binary, varValue = None\<rparr>"
  by (auto simp add: part2_lp_def part2_model_eq Let_def handed_defs initial_def variables_def expr_variables_def)

lemma part1_lp_satisfies:
  "list_all (satisfies x) (constraints part1_lp) \<longleftrightarrow>
     - 6 * x ''y0'' + 1.5 * x ''y1'' + x ''y2'' \<le> 0
     \<and> - 20 * x ''y0'' + 3.0 * x ''y1'' + 4 * x ''y2'' \<le> 0
     \<and> 10 * x ''y0'' + 4.0 * x ''y1'' + 4.1 * x ''y2'' = 1"
  apply (simp add: part1_lp_def part1_model_eq Let_def handed_defs initial_def eval_def)
  apply (safe; linarith)
  done

lemma part2_lp_linking:
  "list_all (satisfies x) (drop 3 (constraints part2_lp)) \<longleftrightarrow>
     x ''y1'' \<le> 0.127 * x ''z1''
     \<and> x ''y1'' - x ''y0'' - 0.032 * x ''z1'' \<ge> - 0.032
     \<and> x ''y1'' - x ''y0'' + 0.032 * x ''z1'' \<le> 0.032
     \<and> x ''y2'' \<le> 0.127 * x ''z2''
     \<and> x ''y2'' - x ''y0'' - 0.032 * x ''z2'' \<ge> - 0.032
     \<and> x ''y2'' - x ''y0'' + 0.032 * x ''z2'' \<le> 0.032"
  apply (simp add: part2_lp_def part2_model_eq Let_def handed_defs initial_def eval_def)
  apply (safe; linarith)
  done

lemma part2_lp_satisfies:
  "list_all (satisfies x) (constraints part2_lp) \<longleftrightarrow>
     10 * x ''y0'' + 4.0 * x ''y1'' + 4.1 * x ''y2'' = 1
     \<and> - 6 * x ''y0'' + 1.5 * x ''y1'' + x ''y2'' \<le> 0
     \<and> - 20 * x ''y0'' + 3.0 * x ''y1'' + 4 * x ''y2'' \<le> 0
     \<and> x ''y1'' \<le> 0.127 * x ''z1''
     \<and> x ''y1'' - x ''y0'' - 0.032 * x ''z1'' \<ge> - 0.032
     \<and> x ''y1'' - x ''y0'' + 0.032 * x ''z1'' \<le> 0.032
     \<and> x ''y2'' \<le> 0.127 * x ''z2''
     \<and> x ''y2'' - x ''y0'' - 0.032 * x ''z2'' \<ge> - 0.032
     \<and> x ''y2'' - x ''y0'' + 0.032 * x ''z2'' \<le> 0.032"
  apply (simp add: part2_lp_def part2_model_eq Let_def handed_defs initial_def eval_def)
  apply (safe; linarith)
  done

lemma part1_lp_domains:
  "list_all (\<lambda>v. in_domain v (x (name v))) (variables part1_lp) \<longleftrightarrow>
     0 \<le> x ''y0'' \<and> 0 \<le> x ''y1'' \<and> 0 \<le> x ''y2''"
  by (simp add: part1_lp_variables in_domain_def within_bounds_def)

lemma part2_lp_domains:
  "list_all (\<lambda>v. in_domain v (x (name v))) (variables part2_lp) \<longleftrightarrow>
     0 \<le> x ''y0'' \<and> 0 \<le> x ''y1'' \<and> 0 \<le> x ''y2''
     \<and> (x ''z1'' = 0 \<or> x ''z1'' = 1) \<and> (x ''z2'' = 0 \<or> x ''z2'' = 1)"
  by (simp add: part2_lp_variables in_domain_def within_bounds_def)

lemma feasible_part1:
  "feasible part1_lp x \<longleftrightarrow>
     0 \<le> x ''y0'' \<and> 0 \<le> x ''y1'' \<and> 0 \<le> x ''y2''
     \<and> - 6 * x ''y0'' + 1.5 * x ''y1'' + x ''y2'' \<le> 0
     \<and> - 20 * x ''y0'' + 3.0 * x ''y1'' + 4 * x ''y2'' \<le> 0
     \<and> 10 * x ''y0'' + 4.0 * x ''y1'' + 4.1 * x ''y2'' = 1"
  unfolding feasible_def part1_lp_domains part1_lp_satisfies by (simp only: conj_assoc)

lemma feasible_part2:
  "feasible part2_lp x \<longleftrightarrow>
     0 \<le> x ''y0'' \<and> 0 \<le> x ''y1'' \<and> 0 \<le> x ''y2''
     \<and> (x ''z1'' = 0 \<or> x ''z1'' = 1) \<and> (x ''z2'' = 0 \<or> x ''z2'' = 1)
     \<and> 10 * x ''y0'' + 4.0 * x ''y1'' + 4.1 * x ''y2'' = 1
     \<and> - 6 * x ''y0'' + 1.5 * x ''y1'' + x ''y2'' \<le> 0
     \<and> - 20 * x ''y0'' + 3.0 * x ''y1'' + 4 * x ''y2'' \<le> 0
     \<and> x ''y1'' \<le> 0.127 * x ''z1''
     \<and> x ''y1'' - x ''y0'' - 0.032 * x ''z1'' \<ge> - 0.032
     \<and> x ''y1'' - x ''y0'' + 0.032 * x ''z1'' \<le> 0.032
     \<and> x ''y2'' \<le> 0.127 * x ''z2''
     \<and> x ''y2'' - x ''y0'' - 0.032 * x ''z2'' \<ge> - 0.032
     \<and> x ''y2'' - x ''y0'' + 0.032 * x ''z2'' \<le> 0.032"
  unfolding feasible_def part2_lp_domains part2_lp_satisfies by (simp only: conj_assoc)

lemma part1_lp_sense: "sense part1_lp = LpMaximize"
  by (simp add: part1_lp_def part1_model_eq Let_def handed_defs initial_def)

lemma part2_lp_sense: "sense part2_lp = LpMaximize"
  by (simp add: part2_lp_def part2_model_eq Let_def handed_defs initial_def)

lemma objective_part1: "objective_value part1_lp x = 1.8 * x ''y1'' + 1.7 * x ''y2''"
  by (simp add: part1_lp_def part1_model_eq Let_def handed_defs initial_def sem_defs)

lemma objective_part2: "objective_value part2_lp x = 1.8 * x ''y1'' + 1.7 * x ''y2''"
  by (simp add: part2_lp_def part2_model_eq Let_def handed_defs initial_def sem_defs)

lemma part1_bound:
  fixes a b c :: real
  assumes "0 \<le> a" "0 \<le> b" "0 \<le> c"
    and "- 6 * a + 1.5 * b + c \<le> 0" and "- 20 * a + 3.0 * b + 4 * c \<le> 0"
    and "10 * a + 4.0 * b + 4.1 * c = 1"
  shows "1.8 * b + 1.7 * c \<le> 69 / 238"
  using assms by linarith

lemma part1_unique:
  fixes a b c :: real
  assumes "0 \<le> a" "0 \<le> b" "0 \<le> c"
    and "- 6 * a + 1.5 * b + c \<le> 0" and "- 20 * a + 3.0 * b + 4 * c \<le> 0"
    and "10 * a + 4.0 * b + 4.1 * c = 1"
    and "69 / 238 \<le> 1.8 * b + 1.7 * c"
  shows "a = 15 / 476 \<and> b = 5 / 119 \<and> c = 15 / 119"
  using assms by linarith

lemma optimal_part1:
  "optimal part1_lp x \<longleftrightarrow> x ''y0'' = 15 / 476 \<and> x ''y1'' = 5 / 119 \<and> x ''y2'' = 15 / 119"
proof
  assume opt: "optimal part1_lp x"
  let ?p = "\<lambda>n. if n = ''y0'' then 15 / 476 else if n = ''y1'' then 5 / 119 else (15 / 119 :: real)"
  have "feasible part1_lp ?p"
    by (simp add: feasible_part1)
  with opt have "objective_value part1_lp ?p \<le> objective_value part1_lp x"
    by (simp add: optimal_def better_or_equal_def part1_lp_sense)
  then have "69 / 238 \<le> 1.8 * x ''y1'' + 1.7 * x ''y2''"
    by (simp add: objective_part1)
  moreover from opt have "feasible part1_lp x"
    by (simp add: optimal_def)
  ultimately show "x ''y0'' = 15 / 476 \<and> x ''y1'' = 5 / 119 \<and> x ''y2'' = 15 / 119"
    using part1_unique [of "x ''y0''" "x ''y1''" "x ''y2''"] by (simp add: feasible_part1)
next
  assume at: "x ''y0'' = 15 / 476 \<and> x ''y1'' = 5 / 119 \<and> x ''y2'' = 15 / 119"
  then have "feasible part1_lp x"
    by (simp add: feasible_part1)
  moreover have "objective_value part1_lp x' \<le> objective_value part1_lp x" if "feasible part1_lp x'" for x'
    using that part1_bound [of "x' ''y0''" "x' ''y1''" "x' ''y2''"] at
    by (simp add: feasible_part1 objective_part1)
  ultimately show "optimal part1_lp x"
    by (simp add: optimal_def better_or_equal_def part1_lp_sense)
qed

lemma feasible_part2_unique:
  "feasible part2_lp x \<longleftrightarrow>
     x ''y0'' = 10 / 181 \<and> x ''y1'' = 10 / 181 \<and> x ''y2'' = 10 / 181 \<and> x ''z1'' = 1 \<and> x ''z2'' = 1"
  unfolding feasible_part2
  by (auto)

lemma part1_lp_constraints: "length (constraints part1_lp) = 3"
  by (simp add: part1_lp_def part1_model_eq Let_def handed_defs initial_def)

lemma part2_lp_constraints: "length (constraints part2_lp) = 9"
  by (simp add: part2_lp_def part2_model_eq Let_def handed_defs initial_def)

lemma optimal_part2: "optimal part2_lp x \<longleftrightarrow> feasible part2_lp x"
proof
  assume "optimal part2_lp x"
  then show "feasible part2_lp x" by (simp add: optimal_def)
next
  assume f: "feasible part2_lp x"
  have "objective_value part2_lp x' \<le> objective_value part2_lp x" if "feasible part2_lp x'" for x'
    using that f by (simp add: feasible_part2_unique objective_part2)
  with f show "optimal part2_lp x"
    by (simp add: optimal_def better_or_equal_def part2_lp_sense)
qed

lemma script_Raised: "part1 solver s = Raised e t \<Longrightarrow> script solver s = Raised e t"
  by (simp add: script_def)

lemma script_Done: "part1 solver s = Done t \<Longrightarrow> script solver s = part2 solver t"
  by (simp add: script_def)

lemma fault_cases: "fault r = None \<longleftrightarrow> (\<exists>t. r = Done t)"
  by (cases r) simp_all

lemma part1_zero:
  assumes "solver part1_lp = Some sol" and "sol_values sol ''y0'' = Some 0"
  shows "fault (part1 solver s) = Some (if sol_values sol ''y1'' = None then TypeError else ZeroDivisionError)"
    and "printed s (part1 solver s) = []"
  using assms by (simp_all add: part1_run Let_def truediv_def printed_def split: option.split)

lemma part2_zero:
  assumes "solver part2_lp = Some sol" and "sol_values sol ''y0'' = Some 0"
  shows "fault (part2 solver s) = Some (if sol_values sol ''y1'' = None then TypeError else ZeroDivisionError)"
    and "printed s (part2 solver s) = []"
  using assms by (simp_all add: part2_run Let_def truediv_def printed_def split: option.split)

lemma part1_agree:
  assumes "map_option sol_values (solver_a part1_lp) = map_option sol_values (solver_b part1_lp)"
  shows "fault (part1 solver_a s) = fault (part1 solver_b s')"
    and "map varValue (created s (part1 solver_a s)) = map varValue (created s' (part1 solver_b s'))"
    and "filter (\<lambda>l. fst l \<noteq> ''solution time: '') (printed s (part1 solver_a s))
       = filter (\<lambda>l. fst l \<noteq> ''solution time: '') (printed s' (part1 solver_b s'))"
  using assms
  by (cases "solver_a part1_lp"; cases "solver_b part1_lp";
      simp add: part1_run Let_def printed_def created_def split: sum.split)+

lemma part2_agree:
  assumes "map_option sol_values (solver_a part2_lp) = map_option sol_values (solver_b part2_lp)"
  shows "fault (part2 solver_a s) = fault (part2 solver_b s')"
    and "map varValue (created s (part2 solver_a s)) = map varValue (created s' (part2 solver_b s'))"
    and "filter (\<lambda>l. fst l \<noteq> ''solution time: '') (printed s (part2 solver_a s))
       = filter (\<lambda>l. fst l \<noteq> ''solution time: '') (printed s' (part2 solver_b s'))"
  using assms
  by (cases "solver_a part2_lp"; cases "solver_b part2_lp";
      simp add: part2_run Let_def printed_def created_def split: sum.split)+


lemma part1_stdout: "stdout (final (part1 solver s)) = stdout s @ printed s (part1 solver s)"
  by (simp add: part1_run Let_def printed_def split: option.split sum.split)

lemma part2_stdout: "stdout (final (part2 solver s)) = stdout s @ printed s (part2 solver s)"
  by (simp add: part2_run Let_def printed_def split: option.split sum.split)

lemma script_printed:
  "printed s (script solver s) =
     (case part1 solver s of
        Done t \<Rightarrow> printed s (part1 solver s) @ printed t (part2 solver t)
      | Raised e t \<Rightarrow> printed s (part1 solver s))"
proof (cases "part1 solver s")
  case (Done t)
  then have t: "stdout t = stdout s @ printed s (part1 solver s)"
    using part1_stdout [of solver s] by simp
  have "printed s (script solver s) = drop (length (stdout s)) (stdout (final (part2 solver t)))"
    using Done by (simp add: script_Done printed_def)
  also have "\<dots> = printed s (part1 solver s) @ printed t (part2 solver t)"
    by (simp add: part2_stdout t)
  finally show ?thesis using Done by simp
next
  case (Raised e t)
  then show ?thesis by (simp add: script_Raised)
qed

lemma script_fault:
  "fault (script solver s) =
     (case part1 solver s of Done t \<Rightarrow> fault (part2 solver t) | Raised e t \<Rightarrow> Some e)"
  by (cases "part1 solver s") (simp_all add: script_def)

lemma part2_same:
  assumes "solver_a part2_lp = solver_b part2_lp"
  shows "fault (part2 solver_a s) = fault (part2 solver_b s')"
    and "printed s (part2 solver_a s) = printed s' (part2 solver_b s')"
    and "created s (part2 solver_a s) = created s' (part2 solver_b s')"
  using assms
  by (simp_all add: part2_run Let_def printed_def created_def split: option.split sum.split)

lemma ratio_close:
  fixes a b c e :: real
  assumes "0 < a" and "(c - e) * a \<le> b" and "b \<le> (c + e) * a"
  shows "\<bar>b / a - c\<bar> \<le> e"
proof -
  from assms have "c - e \<le> b / a" by (simp add: pos_le_divide_eq)
  moreover from assms have "b / a \<le> c + e" by (simp add: pos_divide_le_eq)
  ultimately show ?thesis by (simp add: abs_le_iff)
qed

lemma accurate_part1:
  "accurate d part1_lp sol x \<longleftrightarrow>
     (\<exists>a b c. sol_values sol ''y0'' = Some a \<and> sol_values sol ''y1'' = Some b
        \<and> sol_values sol ''y2'' = Some c
        \<and> x ''y0'' - d \<le> a \<and> a \<le> x ''y0'' + d
        \<and> x ''y1'' - d \<le> b \<and> b \<le> x ''y1'' + d
        \<and> x ''y2'' - d \<le> c \<and> c \<le> x ''y2'' + d)"
  unfolding accurate_def part1_lp_variables abs_diff_le_iff
  by (auto split: option.splits)

lemma accurate_part2:
  "accurate d part2_lp sol x \<longleftrightarrow>
     (\<exists>a b c z w. sol_values sol ''y0'' = Some a \<and> sol_values sol ''y1'' = Some b
        \<and> sol_values sol ''y2'' = Some c \<and> sol_values sol ''z1'' = Some z
        \<and> sol_values sol ''z2'' = Some w
        \<and> x ''y0'' - d \<le> a \<and> a \<le> x ''y0'' + d
        \<and> x ''y1'' - d \<le> b \<and> b \<le> x ''y1'' + d
        \<and> x ''y2'' - d \<le> c \<and> c \<le> x ''y2'' + d
        \<and> x ''z1'' - d \<le> z \<and> z \<le> x ''z1'' + d
        \<and> x ''z2'' - d \<le> w \<and> w \<le> x ''z2'' + d)"
  unfolding accurate_def part2_lp_variables abs_diff_le_iff
  by (auto split: option.splits)

lemma recorded_solver_part1:
  "recorded_solver part1_lp =
     Some \<lparr>sol_status = LpStatusOptimal, sol_values = (\<lambda>n. Some (recorded_part1 n)), sol_time = 1\<rparr>"
  by (simp add: recorded_solver_def part1_lp_constraints)

lemma recorded_solver_part2:
  "recorded_solver part2_lp =
     Some \<lparr>sol_status = LpStatusOptimal, sol_values = (\<lambda>n. Some (recorded_part2 n)), sol_time = 1\<rparr>"
  by (simp add: recorded_solver_def part2_lp_constraints)

section \<open>The claims\<close>

subsection \<open>What the two problems contain\<close>

text \<open>
  C3. The first problem the script builds (lines 42 to 52) has exactly three decision
  variables, \<open>y0\<close>, \<open>y1\<close> and \<open>y2\<close>, each continuous with lower bound 0 and no upper
  bound; exactly three constraints, \<open>-6*y0 + 1.5*y1 + y2 \<le> 0\<close>,
  \<open>-20*y0 + 3.0*y1 + 4*y2 \<le> 0\<close> and \<open>10*y0 + 4.0*y1 + 4.1*y2 = 1\<close>, in this order; and
  the one objective \<open>1.8*y1 + 1.7*y2\<close>, to be maximised. The constraints and the
  objective are given twice: as the lists of terms and constants the problem holds, each
  coefficient and right-hand side written out, and by what they mean for an assignment.
  Whatever the store holds when Part 1 starts and whatever the solver answers, Part 1
  calls the solver exactly once, on this problem.
\<close>

theorem part1_model_built:
  "let Y0 = \<lparr>name = ''y0'', lowBound = Some 0, upBound = None, cat = Continuous, varValue = None\<rparr>;
       Y1 = \<lparr>name = ''y1'', lowBound = Some 0, upBound = None, cat = Continuous, varValue = None\<rparr>;
       Y2 = \<lparr>name = ''y2'', lowBound = Some 0, upBound = None, cat = Continuous, varValue = None\<rparr>
   in (case part1_model s0 of (model, y0, y1, y2, s) \<Rightarrow>
         map (declared (heap s)) [y0, y1, y2] = [Y0, Y1, Y2]
         \<and> handed (heap s) model = part1_lp)
      \<and> set (variables part1_lp) = {Y0, Y1, Y2}
      \<and> length (variables part1_lp) = 3
      \<and> length (constraints part1_lp) = 3
      \<and> constraints part1_lp =
          [LE ([(Y0, - 6), (Y1, 1.5), (Y2, 1)], 0) ([], 0),
           LE ([(Y0, - 20), (Y1, 3.0), (Y2, 4)], 0) ([], 0),
           EQ ([(Y0, 10), (Y1, 4.0), (Y2, 4.1)], 0) ([], 1)]
      \<and> sense part1_lp = LpMaximize
      \<and> objective part1_lp = Some ([(Y1, 1.8), (Y2, 1.7)], 0)
      \<and> (feasible part1_lp x \<longleftrightarrow>
            0 \<le> x ''y0'' \<and> 0 \<le> x ''y1'' \<and> 0 \<le> x ''y2''
            \<and> - 6 * x ''y0'' + 1.5 * x ''y1'' + x ''y2'' \<le> 0
            \<and> - 20 * x ''y0'' + 3.0 * x ''y1'' + 4 * x ''y2'' \<le> 0
            \<and> 10 * x ''y0'' + 4.0 * x ''y1'' + 4.1 * x ''y2'' = 1)
      \<and> objective_value part1_lp x = 1.8 * x ''y1'' + 1.7 * x ''y2''
      \<and> solver_calls (final (part1 solver s0)) = solver_calls s0 @ [part1_lp]"
proof -
  have run: "solver_calls (final (part1 solver s0)) = solver_calls s0 @ [part1_lp]"
    by (simp add: part1_run Let_def split: option.split sum.split)
  have lp: "part1_lp = handed (heap (snd (snd (snd (snd (part1_model initial)))))) (fst (part1_model initial))"
    by (simp add: part1_lp_def split: prod.split)
  show ?thesis
    unfolding Let_def
    apply (intro conjI)
    subgoal using part1_handed [of s0] by (simp add: part1_model_eq Let_def handed_defs)
    subgoal by (simp add: lp part1_model_eq Let_def handed_defs initial_def variables_def expr_variables_def)
    subgoal by (simp add: lp part1_model_eq Let_def handed_defs initial_def variables_def expr_variables_def)
    subgoal by (rule part1_lp_constraints)
    subgoal by (simp add: lp part1_model_eq Let_def handed_defs initial_def)
    subgoal by (rule part1_lp_sense)
    subgoal by (simp add: lp part1_model_eq Let_def handed_defs initial_def)
    subgoal by (rule feasible_part1)
    subgoal by (rule objective_part1)
    subgoal by (rule run)
    done
qed

text \<open>
  C1. The second problem the script builds (lines 80 to 110) maximises \<open>1.8*y1 + 1.7*y2\<close>
  over the continuous variables \<open>y0\<close>, \<open>y1\<close>, \<open>y2\<close> with lower bound 0 and the binary
  variables \<open>z1\<close>, \<open>z2\<close>, under exactly nine constraints, in this order: the
  normalisation \<open>10*y0 + 4.0*y1 + 4.1*y2 = 1\<close>, the two inequalities
  \<open>-6*y0 + 1.5*y1 + y2 \<le> 0\<close> and \<open>-20*y0 + 3.0*y1 + 4*y2 \<le> 0\<close>, and for \<open>i = 1, 2\<close> the
  three linking constraints \<open>yi \<le> 0.127*zi\<close>, \<open>yi - y0 - 0.032*zi \<ge> -0.032\<close> and
  \<open>yi - y0 + 0.032*zi \<le> 0.032\<close>. Again the constraints and the objective are given as
  the lists of terms and constants the problem holds and by what they mean for an
  assignment. Part 2 then calls the solver exactly once, on this problem, and when the
  solver answers with numbers for \<open>y0\<close>, \<open>y1\<close>, \<open>y2\<close> and \<open>y0\<close> is not zero, it prints
  the two ratios, the objective value and the solution time.
\<close>

theorem part2_model_built:
  "let Y0 = \<lparr>name = ''y0'', lowBound = Some 0, upBound = None, cat = Continuous, varValue = None\<rparr>;
       Y1 = \<lparr>name = ''y1'', lowBound = Some 0, upBound = None, cat = Continuous, varValue = None\<rparr>;
       Y2 = \<lparr>name = ''y2'', lowBound = Some 0, upBound = None, cat = Continuous, varValue = None\<rparr>;
       Z1 = \<lparr>name = ''z1'', lowBound = None, upBound = None, cat = Binary, varValue = None\<rparr>;
       Z2 = \<lparr>name = ''z2'', lowBound = None, upBound = None, cat = Binary, varValue = None\<rparr>
   in (case part2_model s0 of (model, y0, y1, y2, s) \<Rightarrow>
         map (declared (heap s)) [y0, y1, y2] = [Y0, Y1, Y2]
         \<and> handed (heap s) model = part2_lp)
      \<and> set (variables part2_lp) = {Y0, Y1, Y2, Z1, Z2}
      \<and> length (variables part2_lp) = 5
      \<and> length (constraints part2_lp) = 9
      \<and> constraints part2_lp =
          [EQ ([(Y0, 10), (Y1, 4.0), (Y2, 4.1)], 0) ([], 1),
           LE ([(Y0, - 6), (Y1, 1.5), (Y2, 1)], 0) ([], 0),
           LE ([(Y0, - 20), (Y1, 3.0), (Y2, 4)], 0) ([], 0),
           LE ([(Y1, 1)], 0) ([(Z1, 0.127)], 0),
           GE ([(Y1, 1), (Y0, - 1), (Z1, - 0.032)], 0) ([], - 0.032),
           LE ([(Y1, 1), (Y0, - 1), (Z1, 0.032)], 0) ([], 0.032),
           LE ([(Y2, 1)], 0) ([(Z2, 0.127)], 0),
           GE ([(Y2, 1), (Y0, - 1), (Z2, - 0.032)], 0) ([], - 0.032),
           LE ([(Y2, 1), (Y0, - 1), (Z2, 0.032)], 0) ([], 0.032)]
      \<and> sense part2_lp = LpMaximize
      \<and> objective part2_lp = Some ([(Y1, 1.8), (Y2, 1.7)], 0)
      \<and> (feasible part2_lp x \<longleftrightarrow>
            0 \<le> x ''y0'' \<and> 0 \<le> x ''y1'' \<and> 0 \<le> x ''y2''
            \<and> (x ''z1'' = 0 \<or> x ''z1'' = 1) \<and> (x ''z2'' = 0 \<or> x ''z2'' = 1)
            \<and> 10 * x ''y0'' + 4.0 * x ''y1'' + 4.1 * x ''y2'' = 1
            \<and> - 6 * x ''y0'' + 1.5 * x ''y1'' + x ''y2'' \<le> 0
            \<and> - 20 * x ''y0'' + 3.0 * x ''y1'' + 4 * x ''y2'' \<le> 0
            \<and> x ''y1'' \<le> 0.127 * x ''z1''
            \<and> x ''y1'' - x ''y0'' - 0.032 * x ''z1'' \<ge> - 0.032
            \<and> x ''y1'' - x ''y0'' + 0.032 * x ''z1'' \<le> 0.032
            \<and> x ''y2'' \<le> 0.127 * x ''z2''
            \<and> x ''y2'' - x ''y0'' - 0.032 * x ''z2'' \<ge> - 0.032
            \<and> x ''y2'' - x ''y0'' + 0.032 * x ''z2'' \<le> 0.032)
      \<and> objective_value part2_lp x = 1.8 * x ''y1'' + 1.7 * x ''y2''
      \<and> solver_calls (final (part2 solver s0)) = solver_calls s0 @ [part2_lp]
      \<and> (solver part2_lp = Some sol \<and> sol_values sol ''y0'' = Some a \<and> a \<noteq> 0
            \<and> sol_values sol ''y1'' = Some b \<and> sol_values sol ''y2'' = Some c \<longrightarrow>
          fault (part2 solver s0) = None
          \<and> printed s0 (part2 solver s0) =
               [(''x1 value: '', Some (b / a)), (''x2 value: '', Some (c / a)),
                (''maximum value: '', Some (1.8 * b + 1.7 * c)),
                (''solution time: '', Some (sol_time sol))])"
proof -
  have calls: "solver_calls (final (part2 solver s0)) = solver_calls s0 @ [part2_lp]"
    by (simp add: part2_run Let_def split: option.split sum.split)
  have prints: "fault (part2 solver s0) = None
      \<and> printed s0 (part2 solver s0) =
           [(''x1 value: '', Some (b / a)), (''x2 value: '', Some (c / a)),
            (''maximum value: '', Some (1.8 * b + 1.7 * c)),
            (''solution time: '', Some (sol_time sol))]"
    if "solver part2_lp = Some sol \<and> sol_values sol ''y0'' = Some a \<and> a \<noteq> 0
            \<and> sol_values sol ''y1'' = Some b \<and> sol_values sol ''y2'' = Some c"
    using that by (simp add: part2_run Let_def truediv_def printed_def)
  have lp: "part2_lp = handed (heap (snd (snd (snd (snd (part2_model initial)))))) (fst (part2_model initial))"
    by (simp add: part2_lp_def split: prod.split)
  show ?thesis
    unfolding Let_def
    apply (intro conjI)
    subgoal using part2_handed [of s0] by (simp add: part2_model_eq Let_def handed_defs)
    subgoal by (simp add: lp part2_model_eq Let_def handed_defs initial_def variables_def expr_variables_def) auto
    subgoal by (simp add: lp part2_model_eq Let_def handed_defs initial_def variables_def expr_variables_def)
    subgoal by (rule part2_lp_constraints)
    subgoal by (simp add: lp part2_model_eq Let_def handed_defs initial_def)
    subgoal by (rule part2_lp_sense)
    subgoal by (simp add: lp part2_model_eq Let_def handed_defs initial_def)
    subgoal by (rule feasible_part2)
    subgoal by (rule objective_part2)
    subgoal by (rule calls)
    subgoal using prints by (intro impI)
    done
qed

text \<open>
  The theorem at the solver that answers with the feasible point of the second problem:
  Part 2 prints the ratios 1 and 1 and the objective value 35/181.
\<close>

theorem part2_model_built_witness:
  "exact_solver part2_lp \<noteq> None
   \<and> fault (part2 exact_solver initial) = None
   \<and> solver_calls (final (part2 exact_solver initial)) = [part2_lp]
   \<and> printed initial (part2 exact_solver initial) =
        [(''x1 value: '', Some 1), (''x2 value: '', Some 1),
         (''maximum value: '', Some (35 / 181)), (''solution time: '', Some 1)]"
  using part2_model_built
    [where ?s0.0 = initial and solver = exact_solver and sol = "the (exact_solver part2_lp)"
       and a = "10 / 181" and b = "10 / 181" and c = "10 / 181"]
  by (simp add: Let_def exact_solver_def part2_point_def part2_lp_constraints initial_def)

subsection \<open>The linking constraints\<close>

text \<open>
  C2. Take any assignment that respects the domains of the variables of the second
  problem (\<open>y0\<close>, \<open>y1\<close>, \<open>y2\<close> at least 0; \<open>z1\<close>, \<open>z2\<close> equal to 0 or 1) and satisfies its
  last six constraints, the linking constraints. Then \<open>zi = 0\<close> forces \<open>yi = 0\<close> and
  \<open>zi = 1\<close> forces \<open>yi = y0\<close>; hence, when \<open>y0\<close> is positive, each ratio \<open>yi / y0\<close> is
  exactly 0 or exactly 1.
\<close>

theorem linking_constraints_force_ratio:
  assumes dom: "list_all (\<lambda>v. in_domain v (x (name v))) (variables part2_lp)"
    and link: "list_all (satisfies x) (drop 3 (constraints part2_lp))"
  shows "(x ''z1'' = 0 \<longrightarrow> x ''y1'' = 0) \<and> (x ''z1'' = 1 \<longrightarrow> x ''y1'' = x ''y0'')
       \<and> (x ''z2'' = 0 \<longrightarrow> x ''y2'' = 0) \<and> (x ''z2'' = 1 \<longrightarrow> x ''y2'' = x ''y0'')
       \<and> (0 < x ''y0'' \<longrightarrow>
            (x ''y1'' / x ''y0'' = 0 \<or> x ''y1'' / x ''y0'' = 1)
            \<and> (x ''y2'' / x ''y0'' = 0 \<or> x ''y2'' / x ''y0'' = 1))"
proof -
  have b: "0 \<le> x ''y0''" "0 \<le> x ''y1''" "0 \<le> x ''y2''"
      "x ''z1'' = 0 \<or> x ''z1'' = 1" "x ''z2'' = 0 \<or> x ''z2'' = 1"
    using dom by (simp_all add: part2_lp_domains)
  have l: "x ''y1'' \<le> 0.127 * x ''z1''"
      "x ''y1'' - x ''y0'' - 0.032 * x ''z1'' \<ge> - 0.032"
      "x ''y1'' - x ''y0'' + 0.032 * x ''z1'' \<le> 0.032"
      "x ''y2'' \<le> 0.127 * x ''z2''"
      "x ''y2'' - x ''y0'' - 0.032 * x ''z2'' \<ge> - 0.032"
      "x ''y2'' - x ''y0'' + 0.032 * x ''z2'' \<le> 0.032"
    using link by (simp_all add: part2_lp_linking)
  have z1: "x ''y1'' = 0" if "x ''z1'' = 0"
    using that b(2) l(1) by simp
  have o1: "x ''y1'' = x ''y0''" if "x ''z1'' = 1"
    using that l(2,3) by simp
  have z2: "x ''y2'' = 0" if "x ''z2'' = 0"
    using that b(3) l(4) by simp
  have o2: "x ''y2'' = x ''y0''" if "x ''z2'' = 1"
    using that l(5,6) by simp
  have r1: "x ''y1'' / x ''y0'' = 0 \<or> x ''y1'' / x ''y0'' = 1" if "0 < x ''y0''"
  proof (cases "x ''z1'' = 0")
    case True
    then show ?thesis by (simp add: z1)
  next
    case False
    with b(4) have "x ''y1'' = x ''y0''" by (simp add: o1)
    with that show ?thesis by simp
  qed
  have r2: "x ''y2'' / x ''y0'' = 0 \<or> x ''y2'' / x ''y0'' = 1" if "0 < x ''y0''"
  proof (cases "x ''z2'' = 0")
    case True
    then show ?thesis by (simp add: z2)
  next
    case False
    with b(5) have "x ''y2'' = x ''y0''" by (simp add: o2)
    with that show ?thesis by simp
  qed
  show ?thesis
    by (intro conjI impI; (rule z1 o1 z2 o2 r1 r2, assumption))
qed

text \<open>
  The theorem at an assignment with \<open>z1 = 0\<close> and \<open>z2 = 1\<close>: \<open>y1 = 0\<close>, and
  \<open>y0 = y2 = 1/50\<close>.
\<close>

theorem linking_constraints_force_ratio_witness:
  "list_all (\<lambda>v. in_domain v ((\<lambda>n. if n = ''z1'' then 0 else if n = ''y1'' then 0 else if n = ''z2'' then 1 else 1 / 50) (name v)))
     (variables part2_lp)
   \<and> list_all (satisfies (\<lambda>n. if n = ''z1'' then 0 else if n = ''y1'' then 0 else if n = ''z2'' then 1 else 1 / 50))
       (drop 3 (constraints part2_lp))
   \<and> (0::real) / (1 / 50) = 0 \<and> (1 / 50 :: real) / (1 / 50) = 1"
proof -
  let ?x = "\<lambda>n. if n = ''z1'' then 0 else if n = ''y1'' then 0 else if n = ''z2'' then 1 else (1 / 50 :: real)"
  have d: "list_all (\<lambda>v. in_domain v (?x (name v))) (variables part2_lp)"
    by (simp add: part2_lp_variables in_domain_def within_bounds_def)
  have l: "list_all (satisfies ?x) (drop 3 (constraints part2_lp))"
    by (simp add: part2_lp_linking)
  show ?thesis
    using linking_constraints_force_ratio [of ?x] d l by simp
qed

subsection \<open>What solving the two problems yields\<close>

text \<open>
  C4. The values a solver returns are floating-point numbers, close to an optimal
  assignment and in general not equal to one. Suppose
  the solver answers the first problem with values that differ by at most \<open>10\<^sup>-\<^sup>9\<close> from
  those of an optimal assignment. Then Part 1 ends without an error and prints a ratio
  \<open>x1 = y1/y0\<close> within \<open>2\<cdot>10\<^sup>-\<^sup>7\<close> of \<open>1.3333333439111112\<close>, a ratio \<open>x2 = y2/y0\<close> within
  \<open>2\<cdot>10\<^sup>-\<^sup>7\<close> of \<open>4.0\<close> and an objective value within \<open>2\<cdot>10\<^sup>-\<^sup>7\<close> of
  \<open>0.28991596659999996\<close>, the values in the comments of lines 57 to 59. The proof rests on
  the optimum being unique: \<open>y0 = 15/476\<close>, \<open>y1 = 5/119\<close>, \<open>y2 = 15/119\<close>.
\<close>

theorem part1_solution:
  assumes answer: "solver part1_lp = Some sol"
    and opt: "optimal part1_lp x"
    and close: "accurate (1 / 10 ^ 9) part1_lp sol x"
  shows "\<exists>p1 p2 p3.
           fault (part1 solver s0) = None
         \<and> printed s0 (part1 solver s0) =
             [(''x1 value: '', Some p1), (''x2 value: '', Some p2),
              (''maximum value: '', Some p3), (''solution time: '', Some (sol_time sol))]
         \<and> \<bar>p1 - 1.3333333439111112\<bar> \<le> 2 / 10 ^ 7
         \<and> \<bar>p2 - 4.0\<bar> \<le> 2 / 10 ^ 7
         \<and> \<bar>p3 - 0.28991596659999996\<bar> \<le> 2 / 10 ^ 7"
proof -
  from opt have x: "x ''y0'' = 15 / 476" "x ''y1'' = 5 / 119" "x ''y2'' = 15 / 119"
    by (simp_all add: optimal_part1)
  from close obtain a b c where v: "sol_values sol ''y0'' = Some a" "sol_values sol ''y1'' = Some b"
      "sol_values sol ''y2'' = Some c"
    and a: "15 / 476 - 1 / 10 ^ 9 \<le> a" "a \<le> 15 / 476 + 1 / 10 ^ 9"
    and b: "5 / 119 - 1 / 10 ^ 9 \<le> b" "b \<le> 5 / 119 + 1 / 10 ^ 9"
    and c: "15 / 119 - 1 / 10 ^ 9 \<le> c" "c \<le> 15 / 119 + 1 / 10 ^ 9"
    unfolding accurate_part1 x by blast
  from a have pos: "0 < a" by simp
  then have nz: "a \<noteq> 0" by simp
  have run: "fault (part1 solver s0) = None"
    "printed s0 (part1 solver s0) =
       [(''x1 value: '', Some (b / a)), (''x2 value: '', Some (c / a)),
        (''maximum value: '', Some (b * 1.8 + c * 1.7)), (''solution time: '', Some (sol_time sol))]"
    using nz by (simp_all add: part1_run Let_def truediv_def printed_def answer v)
  have p1: "\<bar>b / a - 1.3333333439111112\<bar> \<le> 2 / 10 ^ 7"
    using pos a b by (intro ratio_close) simp_all
  have p2: "\<bar>c / a - 4.0\<bar> \<le> 2 / 10 ^ 7"
    using pos a c by (intro ratio_close) simp_all
  have p3: "\<bar>(b * 1.8 + c * 1.7) - 0.28991596659999996\<bar> \<le> 2 / 10 ^ 7"
    unfolding abs_diff_le_iff using b c by simp
  show ?thesis
    using run p1 p2 p3 by blast
qed

text \<open>
  The theorem at the answer the comments record: \<open>y0 = 0.031512605\<close> and
  \<open>y2 = 0.12605042\<close> (lines 102 and 103), and \<open>y1 = 0.042016807\<close>. These values are
  within \<open>10\<^sup>-\<^sup>9\<close> of the optimum and are not themselves feasible; with them Part 1
  prints \<open>42016807/31512605 = 1.33333334391...\<close>, \<open>4\<close> and \<open>0.2899159666\<close>.
\<close>

theorem part1_solution_witness:
  "recorded_solver part1_lp \<noteq> None
   \<and> optimal part1_lp part1_point
   \<and> accurate (1 / 10 ^ 9) part1_lp (the (recorded_solver part1_lp)) part1_point
   \<and> \<not> feasible part1_lp recorded_part1
   \<and> fault (part1 recorded_solver initial) = None
   \<and> printed initial (part1 recorded_solver initial) =
        [(''x1 value: '', Some (42016807 / 31512605)), (''x2 value: '', Some 4),
         (''maximum value: '', Some 0.2899159666), (''solution time: '', Some 1)]
   \<and> \<bar>42016807 / 31512605 - 1.3333333439111112\<bar> \<le> (2 / 10 ^ 7 :: real)
   \<and> \<bar>0.2899159666 - 0.28991596659999996\<bar> \<le> (2 / 10 ^ 7 :: real)"
proof -
  let ?sol = "\<lparr>sol_status = LpStatusOptimal, sol_values = (\<lambda>n. Some (recorded_part1 n)), sol_time = 1\<rparr>"
  have o: "optimal part1_lp part1_point"
    by (simp add: optimal_part1 part1_point_def)
  have c: "accurate (1 / 10 ^ 9) part1_lp ?sol part1_point"
    by (simp add: accurate_def part1_lp_variables recorded_part1_def part1_point_def)
  have nf: "\<not> feasible part1_lp recorded_part1"
    by (simp add: feasible_part1 recorded_part1_def)
  have run: "fault (part1 recorded_solver initial) = None"
    "printed initial (part1 recorded_solver initial) =
        [(''x1 value: '', Some (42016807 / 31512605)), (''x2 value: '', Some 4),
         (''maximum value: '', Some 0.2899159666), (''solution time: '', Some 1)]"
    by (simp_all add: part1_run Let_def truediv_def printed_def recorded_solver_part1 recorded_part1_def initial_def)
  show ?thesis
    using part1_solution [of recorded_solver ?sol part1_point initial] recorded_solver_part1 o c nf run
    by simp
qed

text \<open>
  C5. Suppose the solver answers the second problem with values that differ by at most
  \<open>10\<^sup>-\<^sup>9\<close> from those of an optimal assignment. Then Part 2 ends without an error and
  prints two ratios within \<open>10\<^sup>-\<^sup>7\<close> of \<open>1.0\<close> and an objective value within \<open>10\<^sup>-\<^sup>7\<close>
  of \<open>0.1933701665\<close>, the values in the comments of lines 115 to 117. The second problem
  has a single feasible point, \<open>y0 = y1 = y2 = 10/181\<close> and \<open>z1 = z2 = 1\<close>, which is
  therefore its optimum.
\<close>

theorem part2_solution:
  assumes answer: "solver part2_lp = Some sol"
    and opt: "optimal part2_lp x"
    and close: "accurate (1 / 10 ^ 9) part2_lp sol x"
  shows "\<exists>p1 p2 p3.
           fault (part2 solver s0) = None
         \<and> printed s0 (part2 solver s0) =
             [(''x1 value: '', Some p1), (''x2 value: '', Some p2),
              (''maximum value: '', Some p3), (''solution time: '', Some (sol_time sol))]
         \<and> \<bar>p1 - 1.0\<bar> \<le> 1 / 10 ^ 7
         \<and> \<bar>p2 - 1.0\<bar> \<le> 1 / 10 ^ 7
         \<and> \<bar>p3 - 0.1933701665\<bar> \<le> 1 / 10 ^ 7"
proof -
  from opt have "feasible part2_lp x"
    by (simp add: optimal_part2)
  then have x: "x ''y0'' = 10 / 181" "x ''y1'' = 10 / 181" "x ''y2'' = 10 / 181"
    by (simp_all add: feasible_part2_unique)
  from close obtain a b c where v: "sol_values sol ''y0'' = Some a" "sol_values sol ''y1'' = Some b"
      "sol_values sol ''y2'' = Some c"
    and a: "10 / 181 - 1 / 10 ^ 9 \<le> a" "a \<le> 10 / 181 + 1 / 10 ^ 9"
    and b: "10 / 181 - 1 / 10 ^ 9 \<le> b" "b \<le> 10 / 181 + 1 / 10 ^ 9"
    and c: "10 / 181 - 1 / 10 ^ 9 \<le> c" "c \<le> 10 / 181 + 1 / 10 ^ 9"
    unfolding accurate_part2 x by blast
  from a have pos: "0 < a" by simp
  then have nz: "a \<noteq> 0" by simp
  have run: "fault (part2 solver s0) = None"
    "printed s0 (part2 solver s0) =
       [(''x1 value: '', Some (b / a)), (''x2 value: '', Some (c / a)),
        (''maximum value: '', Some (b * 1.8 + c * 1.7)), (''solution time: '', Some (sol_time sol))]"
    using nz by (simp_all add: part2_run Let_def truediv_def printed_def answer v)
  have p1: "\<bar>b / a - 1.0\<bar> \<le> 1 / 10 ^ 7"
    using pos a b by (intro ratio_close) simp_all
  have p2: "\<bar>c / a - 1.0\<bar> \<le> 1 / 10 ^ 7"
    using pos a c by (intro ratio_close) simp_all
  have p3: "\<bar>(b * 1.8 + c * 1.7) - 0.1933701665\<bar> \<le> 1 / 10 ^ 7"
    unfolding abs_diff_le_iff using b c by simp
  show ?thesis
    using run p1 p2 p3 by blast
qed

text \<open>
  The theorem at the answer \<open>y0 = y1 = y2 = 0.055248619\<close>, \<open>z1 = z2 = 1\<close>, which is
  within \<open>10\<^sup>-\<^sup>9\<close> of the optimum and not itself feasible: Part 2 prints \<open>1\<close>, \<open>1\<close> and
  \<open>0.1933701665\<close>.
\<close>

theorem part2_solution_witness:
  "recorded_solver part2_lp \<noteq> None
   \<and> optimal part2_lp part2_point
   \<and> accurate (1 / 10 ^ 9) part2_lp (the (recorded_solver part2_lp)) part2_point
   \<and> \<not> feasible part2_lp recorded_part2
   \<and> fault (part2 recorded_solver initial) = None
   \<and> printed initial (part2 recorded_solver initial) =
        [(''x1 value: '', Some 1), (''x2 value: '', Some 1),
         (''maximum value: '', Some 0.1933701665), (''solution time: '', Some 1)]"
proof -
  let ?sol = "\<lparr>sol_status = LpStatusOptimal, sol_values = (\<lambda>n. Some (recorded_part2 n)), sol_time = 1\<rparr>"
  have f: "feasible part2_lp part2_point"
    by (simp add: feasible_part2_unique part2_point_def)
  then have o: "optimal part2_lp part2_point"
    by (simp add: optimal_part2)
  have c: "accurate (1 / 10 ^ 9) part2_lp ?sol part2_point"
    by (simp add: accurate_def part2_lp_variables recorded_part2_def part2_point_def)
  have nf: "\<not> feasible part2_lp recorded_part2"
    by (simp add: feasible_part2_unique recorded_part2_def)
  have run: "fault (part2 recorded_solver initial) = None"
    "printed initial (part2 recorded_solver initial) =
        [(''x1 value: '', Some 1), (''x2 value: '', Some 1),
         (''maximum value: '', Some 0.1933701665), (''solution time: '', Some 1)]"
    by (simp_all add: part2_run Let_def truediv_def printed_def recorded_solver_part2 recorded_part2_def initial_def)
  show ?thesis
    using part2_solution [of recorded_solver ?sol part2_point initial] recorded_solver_part2 o c nf run
    by simp
qed

subsection \<open>The second problem restricts the first\<close>

text \<open>
  C8. Every feasible assignment of the second problem, restricted to \<open>y0\<close>, \<open>y1\<close>, \<open>y2\<close>,
  is feasible for the first problem: the three constraints of the first problem are the
  second, third and first constraint of the second problem. Both problems have the same
  objective and the same sense. Hence the objective value of an optimal assignment of the
  second problem is at most that of an optimal assignment of the first.
\<close>

theorem part2_within_part1:
  "(feasible part2_lp x \<longrightarrow>
      feasible part1_lp (\<lambda>n. if n \<in> {''y0'', ''y1'', ''y2''} then x n else 0))
   \<and> constraints part1_lp = map (\<lambda>i. constraints part2_lp ! i) [1, 2, 0]
   \<and> objective part1_lp = objective part2_lp
   \<and> sense part1_lp = sense part2_lp
   \<and> objective_value part1_lp (\<lambda>n. if n \<in> {''y0'', ''y1'', ''y2''} then x n else 0)
       = objective_value part2_lp x
   \<and> (optimal part1_lp x1 \<and> optimal part2_lp x2 \<longrightarrow>
        objective_value part2_lp x2 \<le> objective_value part1_lp x1)"
proof -
  let ?proj = "\<lambda>x n. if n \<in> {''y0'', ''y1'', ''y2''} then x n else (0::real)"
  have incl: "feasible part1_lp (?proj x)" if "feasible part2_lp x" for x
    using that by (simp add: feasible_part1 feasible_part2)
  have obj: "objective_value part1_lp (?proj x) = objective_value part2_lp x" for x
    by (simp add: objective_part1 objective_part2)
  have le: "objective_value part2_lp x2 \<le> objective_value part1_lp x1"
    if "optimal part1_lp x1 \<and> optimal part2_lp x2"
  proof -
    from that have "feasible part2_lp x2" by (simp add: optimal_def)
    then have "feasible part1_lp (?proj x2)" by (rule incl)
    with that have "objective_value part1_lp (?proj x2) \<le> objective_value part1_lp x1"
      by (simp add: optimal_def better_or_equal_def part1_lp_sense)
    then show ?thesis by (simp only: obj)
  qed
  have cs: "constraints part1_lp = map (\<lambda>i. constraints part2_lp ! i) [1, 2, 0]"
    by (simp add: part1_lp_def part2_lp_def part1_model_eq part2_model_eq Let_def handed_defs initial_def)
  have ob: "objective part1_lp = objective part2_lp"
    by (simp add: part1_lp_def part2_lp_def part1_model_eq part2_model_eq Let_def handed_defs initial_def)
  show ?thesis
    using incl obj le cs ob by (simp add: part1_lp_sense part2_lp_sense)
qed

text \<open>
  The theorem at the feasible point of the second problem and the two optima:
  \<open>35/181 \<le> 69/238\<close>.
\<close>

theorem part2_within_part1_witness:
  "feasible part2_lp part2_point
   \<and> feasible part1_lp (\<lambda>n. if n \<in> {''y0'', ''y1'', ''y2''} then part2_point n else 0)
   \<and> optimal part1_lp part1_point \<and> optimal part2_lp part2_point
   \<and> objective_value part2_lp part2_point = 35 / 181
   \<and> objective_value part1_lp part1_point = 69 / 238
   \<and> objective_value part2_lp part2_point \<le> objective_value part1_lp part1_point"
proof -
  have f: "feasible part2_lp part2_point"
    by (simp add: feasible_part2_unique part2_point_def)
  have o1: "optimal part1_lp part1_point"
    by (simp add: optimal_part1 part1_point_def)
  have o2: "optimal part2_lp part2_point"
    using f by (simp add: optimal_part2)
  have v: "objective_value part2_lp part2_point = 35 / 181" "objective_value part1_lp part1_point = 69 / 238"
    by (simp_all add: objective_part1 objective_part2 part1_point_def part2_point_def)
  show ?thesis
    using part2_within_part1 [of part2_point part1_point part2_point] f o1 o2 v by simp
qed

subsection \<open>Errors and the solver status\<close>

text \<open>
  C6. In both parts the two ratios are computed with no guard. Whenever the solver answers
  with the value 0 for \<open>y0\<close>, the first division is reached and fails (with a
  \<^verbatim>\<open>ZeroDivisionError\<close>, or a \<^verbatim>\<open>TypeError\<close> when \<open>y1\<close> has no value), the part has
  printed nothing, and nothing handles the error: in Part 1 it ends the script, and a
  script whose solver answers so for the second problem ends with an error.
\<close>

theorem division_unguarded:
  "(solver part1_lp = Some sol \<and> sol_values sol ''y0'' = Some 0 \<longrightarrow>
      fault (part1 solver s0) =
        Some (if sol_values sol ''y1'' = None then TypeError else ZeroDivisionError)
      \<and> printed s0 (part1 solver s0) = []
      \<and> script solver s0 = part1 solver s0)
   \<and> (solver part2_lp = Some sol \<and> sol_values sol ''y0'' = Some 0 \<longrightarrow>
      fault (part2 solver s0) =
        Some (if sol_values sol ''y1'' = None then TypeError else ZeroDivisionError)
      \<and> printed s0 (part2 solver s0) = []
      \<and> fault (script solver s0) \<noteq> None)"
proof (intro conjI impI)
  assume h: "solver part1_lp = Some sol \<and> sol_values sol ''y0'' = Some 0"
  then show f: "fault (part1 solver s0) =
        Some (if sol_values sol ''y1'' = None then TypeError else ZeroDivisionError)"
    by (simp add: part1_zero)
  from h show "printed s0 (part1 solver s0) = []"
    by (simp add: part1_zero)
  from f obtain e t where "part1 solver s0 = Raised e t"
    by (cases "part1 solver s0") simp_all
  then show "script solver s0 = part1 solver s0"
    by (simp add: script_Raised)
next
  assume h: "solver part2_lp = Some sol \<and> sol_values sol ''y0'' = Some 0"
  then show "fault (part2 solver s0) =
        Some (if sol_values sol ''y1'' = None then TypeError else ZeroDivisionError)"
    by (simp add: part2_zero)
  from h show "printed s0 (part2 solver s0) = []"
    by (simp add: part2_zero)
  show "fault (script solver s0) \<noteq> None"
  proof (cases "part1 solver s0")
    case (Done t)
    with h show ?thesis by (simp add: script_Done part2_zero)
  next
    case (Raised e t)
    then show ?thesis by (simp add: script_Raised)
  qed
qed

text \<open>The theorem at a solver that answers every problem with zeros.\<close>

theorem division_unguarded_witness:
  "answering LpStatusUndefined (\<lambda>n. Some 0) 1 part1_lp \<noteq> None
   \<and> answering LpStatusUndefined (\<lambda>n. Some 0) 1 part2_lp \<noteq> None
   \<and> fault (part1 (answering LpStatusUndefined (\<lambda>n. Some 0) 1) initial) = Some ZeroDivisionError
   \<and> printed initial (part1 (answering LpStatusUndefined (\<lambda>n. Some 0) 1) initial) = []
   \<and> fault (part2 (answering LpStatusUndefined (\<lambda>n. Some 0) 1) initial) = Some ZeroDivisionError
   \<and> printed initial (part2 (answering LpStatusUndefined (\<lambda>n. Some 0) 1) initial) = []
   \<and> fault (script (answering LpStatusUndefined (\<lambda>n. Some 0) 1) initial) = Some ZeroDivisionError"
  using division_unguarded
    [of "answering LpStatusUndefined (\<lambda>n. Some 0) 1" 
        "\<lparr>sol_status = LpStatusUndefined, sol_values = (\<lambda>n. Some 0), sol_time = 1\<rparr>" initial]
  by (simp add: answering_def)



subsection \<open>Runs compared\<close>

text \<open>
  C7. Take two runs, from any two states, with solvers that agree on the values they
  answer for each problem (they may differ in status and time). Then in Part 1, in
  Part 2 and in the whole script both runs end the same way, store the same values in the
  variables they create, and print the same ratios and objective values: the printed
  lines other than the solution time are equal.
\<close>

theorem rerun_same_values:
  assumes det: "\<forall>lp. map_option sol_values (solver_a lp) = map_option sol_values (solver_b lp)"
  shows "fault (part1 solver_a s) = fault (part1 solver_b s')
       \<and> map varValue (created s (part1 solver_a s)) = map varValue (created s' (part1 solver_b s'))
       \<and> filter (\<lambda>l. fst l \<noteq> ''solution time: '') (printed s (part1 solver_a s))
         = filter (\<lambda>l. fst l \<noteq> ''solution time: '') (printed s' (part1 solver_b s'))
       \<and> fault (part2 solver_a s) = fault (part2 solver_b s')
       \<and> map varValue (created s (part2 solver_a s)) = map varValue (created s' (part2 solver_b s'))
       \<and> filter (\<lambda>l. fst l \<noteq> ''solution time: '') (printed s (part2 solver_a s))
         = filter (\<lambda>l. fst l \<noteq> ''solution time: '') (printed s' (part2 solver_b s'))
       \<and> fault (script solver_a s) = fault (script solver_b s')
       \<and> filter (\<lambda>l. fst l \<noteq> ''solution time: '') (printed s (script solver_a s))
         = filter (\<lambda>l. fst l \<noteq> ''solution time: '') (printed s' (script solver_b s'))"
proof -
  from det have d1: "map_option sol_values (solver_a part1_lp) = map_option sol_values (solver_b part1_lp)"
    and d2: "map_option sol_values (solver_a part2_lp) = map_option sol_values (solver_b part2_lp)"
    by simp_all
  note p1 = part1_agree [of solver_a solver_b, OF d1] and p2 = part2_agree [of solver_a solver_b, OF d2]
  have f1: "fault (part1 solver_a s) = fault (part1 solver_b s')"
    by (rule p1)
  have sf: "fault (script solver_a s) = fault (script solver_b s')"
    using f1 p2(1) by (cases "part1 solver_a s"; cases "part1 solver_b s'") (simp_all add: script_fault)
  have sp: "filter (\<lambda>l. fst l \<noteq> ''solution time: '') (printed s (script solver_a s))
         = filter (\<lambda>l. fst l \<noteq> ''solution time: '') (printed s' (script solver_b s'))"
    using f1 p1(3) [of s s'] p2(3)
    by (cases "part1 solver_a s"; cases "part1 solver_b s'") (simp_all add: script_printed)
  show ?thesis
    using p1 p2 sf sp by simp
qed

text \<open>
  The theorem at a second run of Part 1, from the state the first run left, with a solver
  that takes another time: the same three lines.
\<close>

theorem rerun_same_values_witness:
  "(\<forall>lp. map_option sol_values (exact_solver lp)
        = map_option sol_values (map_option (\<lambda>sol. sol\<lparr>sol_time := 2\<rparr>) (exact_solver lp)))
   \<and> fault (part1 (\<lambda>lp. map_option (\<lambda>sol. sol\<lparr>sol_time := 2\<rparr>) (exact_solver lp))
        (final (part1 exact_solver initial))) = None
   \<and> filter (\<lambda>l. fst l \<noteq> ''solution time: '')
        (printed (final (part1 exact_solver initial))
           (part1 (\<lambda>lp. map_option (\<lambda>sol. sol\<lparr>sol_time := 2\<rparr>) (exact_solver lp))
              (final (part1 exact_solver initial))))
       = [(''x1 value: '', Some (4 / 3)), (''x2 value: '', Some 4), (''maximum value: '', Some (69 / 238))]"
proof -
  let ?b = "\<lambda>lp. map_option (\<lambda>sol. sol\<lparr>sol_time := 2\<rparr>) (exact_solver lp)"
  have det: "\<forall>lp. map_option sol_values (exact_solver lp) = map_option sol_values (?b lp)"
    by (simp add: exact_solver_def)
  have a: "fault (part1 exact_solver initial) = None"
    "filter (\<lambda>l. fst l \<noteq> ''solution time: '') (printed initial (part1 exact_solver initial))
       = [(''x1 value: '', Some (4 / 3)), (''x2 value: '', Some 4), (''maximum value: '', Some (69 / 238))]"
    by (simp_all add: part1_run Let_def truediv_def printed_def exact_solver_def part1_lp_constraints
        part1_point_def initial_def)
  show ?thesis
    using rerun_same_values [of exact_solver ?b initial "final (part1 exact_solver initial)"] det a
    by simp
qed

text \<open>
  C9. Part 2 builds a new problem and new variables. From any state: the variable objects
  that existed before are left as they were, every variable of the problem of Part 2 is a
  new object, and the problem handed to the solver is the second problem, with none of
  the constraints of Part 1. What Part 2 does (how it ends, what it prints, the objects it
  creates) is the same from any two states. So in the whole script, two runs whose
  Part 1 ended without an error, however different the answers of the solver for the
  first problem, end the same way and print the same lines after Part 1, given the same
  answer for the second problem.
\<close>

theorem part2_fresh:
  "(case part2_model s of (model, y0, y1, y2, t) \<Rightarrow>
       take (length (heap s)) (heap t) = heap s
     \<and> list_all (\<lambda>r. length (heap s) \<le> r \<and> r < length (heap t)) (variables model)
     \<and> list_all (\<lambda>r. length (heap s) \<le> r \<and> r < length (heap t)) [y0, y1, y2]
     \<and> handed (heap t) model = part2_lp)
   \<and> take (length (heap s)) (heap (final (part2 solver s))) = heap s
   \<and> drop (length (solver_calls s)) (solver_calls (final (part2 solver s))) = [part2_lp]
   \<and> fault (part2 solver s) = fault (part2 solver s')
   \<and> printed s (part2 solver s) = printed s' (part2 solver s')
   \<and> created s (part2 solver s) = created s' (part2 solver s')
   \<and> (fault (part1 solver_a s0) = None \<and> fault (part1 solver_b s0) = None
        \<and> solver_a part2_lp = solver_b part2_lp \<longrightarrow>
      fault (script solver_a s0) = fault (script solver_b s0)
      \<and> printed (final (part1 solver_a s0)) (script solver_a s0)
        = printed (final (part1 solver_b s0)) (script solver_b s0))"
proof -
  have model: "case part2_model s of (model, y0, y1, y2, t) \<Rightarrow>
       take (length (heap s)) (heap t) = heap s
     \<and> list_all (\<lambda>r. length (heap s) \<le> r \<and> r < length (heap t)) (variables model)
     \<and> list_all (\<lambda>r. length (heap s) \<le> r \<and> r < length (heap t)) [y0, y1, y2]
     \<and> handed (heap t) model = part2_lp"
    using part2_handed [of s]
    by (simp add: part2_model_eq Let_def variables_def expr_variables_def)
  have frame: "take (length (heap s)) (heap (final (part2 solver s))) = heap s"
    by (simp add: part2_run Let_def split: option.split sum.split)
  have calls: "drop (length (solver_calls s)) (solver_calls (final (part2 solver s))) = [part2_lp]"
    by (simp add: part2_run Let_def split: option.split sum.split)
  have whole: "fault (script solver_a s0) = fault (script solver_b s0)
      \<and> printed (final (part1 solver_a s0)) (script solver_a s0)
        = printed (final (part1 solver_b s0)) (script solver_b s0)"
    if h: "fault (part1 solver_a s0) = None \<and> fault (part1 solver_b s0) = None
        \<and> solver_a part2_lp = solver_b part2_lp"
  proof -
    from h obtain ta tb where d: "part1 solver_a s0 = Done ta" "part1 solver_b s0 = Done tb"
      by (auto simp add: fault_cases)
    from h have e: "solver_a part2_lp = solver_b part2_lp" by simp
    show ?thesis
      using part2_same [of solver_a solver_b, OF e, of ta tb] by (simp add: d script_Done)
  qed
  show ?thesis
    using model frame calls part2_same [of solver solver, OF refl, of s s'] whole by simp
qed

text \<open>
  The theorem at two runs of the script whose solvers answer the first problem
  differently (the optimum; the value 1 for every variable, reported infeasible): Part 1
  prints different lines, and what follows is the same.
\<close>

theorem part2_fresh_witness:
  "fault (part1 exact_solver initial) = None
   \<and> fault (part1 (\<lambda>lp. if length (constraints lp) = 3
                          then answering LpStatusInfeasible (\<lambda>n. Some 1) 5 lp
                          else exact_solver lp) initial) = None
   \<and> printed initial (part1 exact_solver initial)
      \<noteq> printed initial (part1 (\<lambda>lp. if length (constraints lp) = 3
                          then answering LpStatusInfeasible (\<lambda>n. Some 1) 5 lp
                          else exact_solver lp) initial)
   \<and> printed (final (part1 exact_solver initial)) (script exact_solver initial)
      = printed (final (part1 (\<lambda>lp. if length (constraints lp) = 3
                          then answering LpStatusInfeasible (\<lambda>n. Some 1) 5 lp
                          else exact_solver lp) initial))
          (script (\<lambda>lp. if length (constraints lp) = 3
                          then answering LpStatusInfeasible (\<lambda>n. Some 1) 5 lp
                          else exact_solver lp) initial)"
proof -
  let ?b = "\<lambda>lp. if length (constraints lp) = 3
                then answering LpStatusInfeasible (\<lambda>n. Some 1) 5 lp else exact_solver lp"
  have a: "fault (part1 exact_solver initial) = None"
    by (simp add: part1_run Let_def truediv_def exact_solver_def part1_lp_constraints part1_point_def)
  have b: "fault (part1 ?b initial) = None"
    by (simp add: part1_run Let_def truediv_def answering_def part1_lp_constraints)
  have e: "exact_solver part2_lp = ?b part2_lp"
    by (simp add: part2_lp_constraints)
  have ne: "printed initial (part1 exact_solver initial) \<noteq> printed initial (part1 ?b initial)"
    by (simp add: part1_run Let_def truediv_def answering_def exact_solver_def part1_lp_constraints
        part1_point_def printed_def initial_def)
  show ?thesis
    using part2_fresh [where solver_a = exact_solver and solver_b = ?b and ?s0.0 = initial] a b e ne
    by simp
qed

end
